theory Spec2Isabelle
  imports Complex_Main
begin

section \<open>LightTheGains: the portfolio computation and the bulb signal\<close>

text \<open>
  A shallow embedding of \<^verbatim>\<open>light_the_gains.py\<close>. Python \<^verbatim>\<open>str\<close> values are
  modelled as \<^typ>\<open>string\<close> restricted to ASCII text (a byte above 127 is neither
  whitespace nor a letter here). Finite floating-point numbers are modelled as exact
  \<^typ>\<open>real\<close> numbers, so binary rounding error is outside the model; a missing cell of a
  data frame (\<^verbatim>\<open>None\<close> or \<^verbatim>\<open>NaN\<close> inside a column) is \<^const>\<open>None\<close>.
\<close>

subsection \<open>Strings\<close>

definition is_space :: "char \<Rightarrow> bool" where
  \<comment> \<open>the ASCII characters that \<^verbatim>\<open>str.strip()\<close> removes: tab, line feed, vertical tab,
      form feed, carriage return, the separators 28 to 31 and the blank\<close>
  "is_space c = (c \<in> set [CHR 0x09, CHR 0x0A, CHR 0x0B, CHR 0x0C, CHR 0x0D,
                              CHR 0x1C, CHR 0x1D, CHR 0x1E, CHR 0x1F, CHR 0x20])"

definition strip :: "string \<Rightarrow> string" where
  "strip s = rev (dropWhile is_space (rev (dropWhile is_space s)))"

definition upper_char :: "char \<Rightarrow> char" where
  "upper_char c =
     (case map_of (zip ''abcdefghijklmnopqrstuvwxyz'' ''ABCDEFGHIJKLMNOPQRSTUVWXYZ'') c of
        Some u \<Rightarrow> u
      | None \<Rightarrow> c)"

definition lower_char :: "char \<Rightarrow> char" where
  "lower_char c =
     (case map_of (zip ''ABCDEFGHIJKLMNOPQRSTUVWXYZ'' ''abcdefghijklmnopqrstuvwxyz'') c of
        Some l \<Rightarrow> l
      | None \<Rightarrow> c)"

definition upper :: "string \<Rightarrow> string" where
  "upper s = map upper_char s"

definition lower :: "string \<Rightarrow> string" where
  "lower s = map lower_char s"

definition endswith :: "string \<Rightarrow> string \<Rightarrow> bool" where
  "endswith s suf = (length suf \<le> length s \<and> drop (length s - length suf) s = suf)"

definition replace_char :: "char \<Rightarrow> string \<Rightarrow> string \<Rightarrow> string" where
  \<comment> \<open>\<^verbatim>\<open>s.replace(old, new)\<close> for a pattern \<^verbatim>\<open>old\<close> of one character\<close>
  "replace_char old new s = concat (map (\<lambda>c. if c = old then new else [c]) s)"

subsection \<open>Symbol normalisation\<close>

definition AUTO_APPEND_NS :: bool where
  "AUTO_APPEND_NS = True"

definition normalize_symbol :: "string \<Rightarrow> string" where
  "normalize_symbol symbol =
     (let s = upper (strip symbol);
          s = (if AUTO_APPEND_NS \<and> \<not> endswith s ''.NS'' then s @ ''.NS'' else s)
      in replace_char CHR ''&'' ''%26'' s)"

subsection \<open>Numbers\<close>

definition round_half_even :: "real \<Rightarrow> int" where
  \<comment> \<open>round to the nearest integer, a tie to the even neighbour (\<^verbatim>\<open>rint\<close>)\<close>
  "round_half_even x =
     (let f = \<lfloor>x\<rfloor>; d = x - of_int f
      in if d < 1 / 2 then f else if 1 / 2 < d then f + 1 else if even f then f else f + 1)"

definition round2 :: "real \<Rightarrow> real" where
  \<comment> \<open>\<^verbatim>\<open>round(x, 2)\<close> and \<^verbatim>\<open>DataFrame.round(2)\<close> on one value\<close>
  "round2 x = of_int (round_half_even (x * 100)) / 100"

definition truthy :: "real option \<Rightarrow> bool" where
  \<comment> \<open>the truth value of an optional number in a condition: \<^verbatim>\<open>None\<close> and zero are false\<close>
  "truthy v = (case v of None \<Rightarrow> False | Some x \<Rightarrow> x \<noteq> 0)"

definition fillna :: "real \<Rightarrow> real option \<Rightarrow> real" where
  "fillna d v = (case v of None \<Rightarrow> d | Some x \<Rightarrow> x)"

definition nansum :: "real option list \<Rightarrow> real" where
  \<comment> \<open>\<^verbatim>\<open>Series.sum()\<close>: missing cells are skipped, the empty sum is 0\<close>
  "nansum vs = sum_list (map (fillna 0) vs)"

definition mul_opt :: "real option \<Rightarrow> real option \<Rightarrow> real option" where
  \<comment> \<open>the product of two cells; a missing factor gives a missing product\<close>
  "mul_opt a b = (case a of None \<Rightarrow> None | Some x \<Rightarrow> map_option (\<lambda>y. x * y) b)"

datatype exn = SourceError | AttributeError | KeyError | ZeroDivisionError

definition py_div :: "real \<Rightarrow> real \<Rightarrow> exn + real" where
  \<comment> \<open>the division of two Python numbers\<close>
  "py_div a b = (if b = 0 then Inl ZeroDivisionError else Inr (a / b))"

datatype pyfloat = Fin real | PInf | NInf | NaN

definition np_div :: "real \<Rightarrow> real \<Rightarrow> pyfloat" where
  \<comment> \<open>the division of two \<^verbatim>\<open>numpy.float64\<close> scalars: a zero divisor raises nothing, the
      quotient is \<^verbatim>\<open>nan\<close> or an infinity\<close>
  "np_div a b =
     (if b \<noteq> 0 then Fin (a / b) else if a = 0 then NaN else if 0 < a then PInf else NInf)"

fun gt :: "pyfloat \<Rightarrow> real \<Rightarrow> bool" where
  "gt (Fin x) c = (c < x)"
| "gt PInf c = True"
| "gt NInf c = False"
| "gt NaN c = False"

fun lt :: "pyfloat \<Rightarrow> real \<Rightarrow> bool" where
  "lt (Fin x) c = (x < c)"
| "lt PInf c = False"
| "lt NInf c = True"
| "lt NaN c = False"

subsection \<open>The bulb\<close>

datatype bulb_call = turn_on | set_colour nat nat nat | set_white | turn_off

record bulb =
  calls :: "bulb_call list"  \<comment> \<open>the operations invoked on the device so far\<close>
  raises :: "bulb_call \<Rightarrow> bool"  \<comment> \<open>whether an operation ends in an exception\<close>

definition invoke :: "bulb \<Rightarrow> bulb_call \<Rightarrow> bulb + bulb" where
  \<comment> \<open>one device call; \<^const>\<open>Inl\<close> when it raised\<close>
  "invoke b c =
     (let b' = b\<lparr>calls := calls b @ [c]\<rparr> in if raises b c then Inl b' else Inr b')"

definition bulb_failed :: string where
  "bulb_failed = ''Bulb control failed''"

definition set_bulb_color :: "bulb \<Rightarrow> pyfloat option \<Rightarrow> bulb \<times> string list" where
  \<comment> \<open>the bulb afterwards and the lines printed\<close>
  "set_bulb_color b change_pct =
     (case change_pct of
        None \<Rightarrow> (b, [])
      | Some v \<Rightarrow>
          (case invoke b turn_on of
             Inl b1 \<Rightarrow> (b1, [bulb_failed])
           | Inr b1 \<Rightarrow>
               if gt v 0.3 then
                 (case invoke b1 (set_colour 0 255 0) of
                    Inl b2 \<Rightarrow> (b2, [bulb_failed])
                  | Inr b2 \<Rightarrow> (b2, [''Bulb -> GREEN (Gain)'']))
               else if lt v (- 0.3) then
                 (case invoke b1 (set_colour 255 0 0) of
                    Inl b2 \<Rightarrow> (b2, [bulb_failed])
                  | Inr b2 \<Rightarrow> (b2, [''Bulb -> RED (Loss)'']))
               else
                 (case invoke b1 set_white of
                    Inl b2 \<Rightarrow> (b2, [bulb_failed])
                  | Inr b2 \<Rightarrow> (b2, [''Bulb -> WHITE (Neutral)'']))))"

text \<open>
  The classification in the words of the specification, to be compared with the branches
  of \<^const>\<open>set_bulb_color\<close>, and the device calls and message that stand for each state.
\<close>

datatype signal = GAIN | LOSS | NEUTRAL | UNKNOWN

definition classify :: "real option \<Rightarrow> signal" where
  "classify v =
     (case v of
        None \<Rightarrow> UNKNOWN
      | Some x \<Rightarrow> if 0.3 < x then GAIN else if x < - 0.3 then LOSS else NEUTRAL)"

fun indicator :: "signal \<Rightarrow> bulb_call list \<times> string list" where
  "indicator GAIN = ([turn_on, set_colour 0 255 0], [''Bulb -> GREEN (Gain)''])"
| "indicator LOSS = ([turn_on, set_colour 255 0 0], [''Bulb -> RED (Loss)''])"
| "indicator NEUTRAL = ([turn_on, set_white], [''Bulb -> WHITE (Neutral)''])"
| "indicator UNKNOWN = ([], [])"

subsection \<open>Loading the portfolio\<close>

text \<open>
  A parsed JSON document is modelled for the documented shape, a list of objects whose
  values are numbers, strings or \<^verbatim>\<open>null\<close>; an object is an association list with
  distinct keys. \<^verbatim>\<open>pandas.DataFrame\<close> of such a list has one column for every key that
  occurs in some object, and a missing cell where an object lacks the key.
\<close>

datatype cell = Num real | Text string | Null

type_synonym json_record = "(string \<times> cell) list"

record frame =
  columns :: "string list"
  rows :: "json_record list"

definition DataFrame :: "json_record list \<Rightarrow> frame" where
  "DataFrame data = \<lparr>columns = remdups (concat (map (map fst) data)), rows = data\<rparr>"

definition cell_at :: "json_record \<Rightarrow> string \<Rightarrow> cell" where
  "cell_at r col = (case map_of r col of None \<Rightarrow> Null | Some c \<Rightarrow> c)"

datatype load_error = OnlyJsonSupported | FailedToRead | MissingKeys

definition required :: "string list" where
  "required = [''symbol'', ''qty'', ''buy_price'']"

definition load_portfolio :: "string \<Rightarrow> json_record list option \<Rightarrow> load_error + frame" where
  \<comment> \<open>\<^verbatim>\<open>suffix\<close> is \<^verbatim>\<open>path.suffix\<close>; \<^verbatim>\<open>parsed\<close> is \<^const>\<open>None\<close> when opening the file,
      \<^verbatim>\<open>json.load\<close> or the data frame constructor raised. The three errors are the three
      \<^verbatim>\<open>ValueError\<close> messages of the source.\<close>
  "load_portfolio suffix parsed =
     (if lower suffix \<noteq> ''.json'' then Inl OnlyJsonSupported
      else
        (case parsed of
           None \<Rightarrow> Inl FailedToRead
         | Some data \<Rightarrow>
             (let df = DataFrame data
              in if \<not> set required \<subseteq> set (columns df) then Inl MissingKeys else Inr df)))"

subsection \<open>Fetching prices\<close>

text \<open>
  The price source is a parameter: \<^verbatim>\<open>yf.Ticker(symbol)\<close> is a record of what each of the
  three requests of the source answers, a value or an exception. Quoted prices are
  optional finite numbers.
\<close>

record ticker =
  fast_info :: "exn + (real option \<times> real option)"  \<comment> \<open>\<^verbatim>\<open>last_price\<close>, \<^verbatim>\<open>previous_close\<close>\<close>
  history_2d :: "exn + real list"  \<comment> \<open>the closes of \<^verbatim>\<open>history(period="2d")\<close>\<close>
  info_previousClose :: "exn + real option"

definition try_bind :: "exn + 'a \<Rightarrow> ('a \<Rightarrow> exn + 'b) \<Rightarrow> exn + 'b" where
  \<comment> \<open>sequencing inside a \<^verbatim>\<open>try\<close> block: the first exception ends it\<close>
  "try_bind m f = (case m of Inl e \<Rightarrow> Inl e | Inr x \<Rightarrow> f x)"

definition fetch_try :: "ticker \<Rightarrow> exn + (real option \<times> real option)" where
  \<comment> \<open>the body of the \<^verbatim>\<open>try\<close> block of \<^verbatim>\<open>fetch_yfinance_price\<close>\<close>
  "fetch_try t =
     try_bind (fast_info t) (\<lambda>(last_price, prev_close).
     try_bind
       (if \<not> truthy prev_close \<or> \<not> truthy last_price \<or> prev_close = Some 0 then
          try_bind (history_2d t) (\<lambda>hist.
            if 2 \<le> length hist then
              Inr (Some (hist ! (length hist - 1)), Some (hist ! (length hist - 2)))
            else if length hist = 1 then
              Inr (Some (hist ! (length hist - 1)), prev_close)
            else Inr (last_price, prev_close))
        else Inr (last_price, prev_close)) (\<lambda>(last_price, prev_close).
     try_bind
       (if \<not> truthy prev_close \<or> prev_close = Some 0 then info_previousClose t
        else Inr prev_close) (\<lambda>prev_close.
     let one_day_return =
           (if truthy last_price \<and> truthy prev_close then
              (case (last_price, prev_close) of
                 (Some l, Some p) \<Rightarrow> Some ((l - p) / p * 100)
               | _ \<Rightarrow> None)
            else None)
     in Inr (if truthy last_price then last_price else None,
             if truthy one_day_return then map_option round2 one_day_return else None))))"

definition fetch_yfinance_price ::
  "(string \<Rightarrow> ticker) \<Rightarrow> string \<Rightarrow> real option \<times> real option" where
  \<comment> \<open>the \<^verbatim>\<open>except Exception\<close> handler answers \<^verbatim>\<open>(None, None)\<close>\<close>
  "fetch_yfinance_price yf symbol =
     (case fetch_try (yf symbol) of Inl e \<Rightarrow> (None, None) | Inr r \<Rightarrow> r)"

type_synonym price_dict = "string \<rightharpoonup> real option"

definition fetch_live_prices ::
  "(string \<Rightarrow> ticker) \<Rightarrow> string list \<Rightarrow> price_dict \<times> price_dict" where
  "fetch_live_prices yf symbols =
     fold (\<lambda>sym (prices, returns).
             (case fetch_yfinance_price yf sym of
                (price, daily_ret) \<Rightarrow> (prices(sym \<mapsto> price), returns(sym \<mapsto> daily_ret))))
          symbols (Map.empty, Map.empty)"

subsection \<open>The portfolio table\<close>

record holding =
  symbol :: cell
  symbol_norm :: string
  qty :: real
  buy_price :: real
  current_price :: "real option"
  one_day_return_pct :: "real option"  \<comment> \<open>the column \<^verbatim>\<open>1d_return_pct\<close>\<close>
  invested :: real
  current_value :: "real option"
  profit_loss :: "real option"
  return_pct :: "real option"

fun apply_normalize :: "cell list \<Rightarrow> exn + string list" where
  \<comment> \<open>\<^verbatim>\<open>df["symbol"].apply(normalize_symbol)\<close>: a cell that is no string has no
      \<^verbatim>\<open>strip\<close>\<close>
  "apply_normalize [] = Inr []"
| "apply_normalize (Text s # cs) =
     try_bind (apply_normalize cs) (\<lambda>ns. Inr (normalize_symbol s # ns))"
| "apply_normalize (c # cs) = Inl AttributeError"

definition map_dict :: "price_dict \<Rightarrow> string \<Rightarrow> real option" where
  \<comment> \<open>one cell of \<^verbatim>\<open>Series.map(dict)\<close>: an absent key and a \<^verbatim>\<open>None\<close> value are both
      missing\<close>
  "map_dict d k = (case d k of None \<Rightarrow> None | Some v \<Rightarrow> v)"

definition to_numeric :: "(string \<Rightarrow> real option) \<Rightarrow> cell \<Rightarrow> real option" where
  \<comment> \<open>\<^verbatim>\<open>pd.to_numeric(..., errors="coerce")\<close> on one cell; \<^verbatim>\<open>parse\<close> is the library's
      reading of a text as a number, \<^const>\<open>None\<close> for a text that is not numeric\<close>
  "to_numeric parse c = (case c of Num x \<Rightarrow> Some x | Text s \<Rightarrow> parse s | Null \<Rightarrow> None)"

definition return_pct_row :: "real option \<Rightarrow> real \<Rightarrow> exn + real option" where
  \<comment> \<open>the \<^verbatim>\<open>lambda\<close> of \<^verbatim>\<open>compute_portfolio\<close>, given \<^verbatim>\<open>r["profit_loss"]\<close> and
      \<^verbatim>\<open>r["invested"]\<close>\<close>
  "return_pct_row pl invd =
     (if invd \<noteq> 0 then
        (case pl of
           None \<Rightarrow> Inr None
         | Some p \<Rightarrow> try_bind (py_div p invd) (\<lambda>q. Inr (Some (q * 100))))
      else Inr None)"

definition derive_row ::
  "(string \<Rightarrow> real option) \<Rightarrow> price_dict \<Rightarrow> price_dict \<Rightarrow> json_record \<Rightarrow> string \<Rightarrow> exn + holding"
  where
  "derive_row parse price_map ret_map r nsym =
     (let q = fillna 0 (to_numeric parse (cell_at r ''qty''));
          b = fillna 0 (to_numeric parse (cell_at r ''buy_price''));
          cp = map_dict price_map nsym;
          invd = q * b;
          cv = mul_opt (Some q) cp;
          pl = map_option (\<lambda>v. v - invd) cv
      in try_bind (return_pct_row pl invd) (\<lambda>rp.
           Inr \<lparr>symbol = cell_at r ''symbol'', symbol_norm = nsym, qty = q, buy_price = b,
                current_price = cp, one_day_return_pct = map_dict ret_map nsym,
                invested = invd, current_value = cv, profit_loss = pl, return_pct = rp\<rparr>))"

fun derive_rows ::
  "(string \<Rightarrow> real option) \<Rightarrow> price_dict \<Rightarrow> price_dict \<Rightarrow> json_record list \<Rightarrow> string list
     \<Rightarrow> exn + holding list"
  where
  "derive_rows parse pm rm (r # rs) (n # ns) =
     try_bind (derive_row parse pm rm r n) (\<lambda>h.
     try_bind (derive_rows parse pm rm rs ns) (\<lambda>hs. Inr (h # hs)))"
| "derive_rows parse pm rm rs ns = Inr []"

definition compute_unrounded ::
  "(string \<Rightarrow> ticker) \<Rightarrow> (string \<Rightarrow> real option) \<Rightarrow> frame \<Rightarrow> exn + holding list" where
  \<comment> \<open>\<^verbatim>\<open>compute_portfolio\<close> up to its last line: the table before \<^verbatim>\<open>df.round(2)\<close>\<close>
  "compute_unrounded yf parse df =
     (if \<not> set required \<subseteq> set (columns df) then Inl KeyError
      else
        try_bind (apply_normalize (map (\<lambda>r. cell_at r ''symbol'') (rows df))) (\<lambda>norms.
        (case fetch_live_prices yf norms of
           (price_map, ret_map) \<Rightarrow> derive_rows parse price_map ret_map (rows df) norms)))"

definition round_holding :: "holding \<Rightarrow> holding" where
  \<comment> \<open>\<^verbatim>\<open>df.round(2)\<close> on one row: every numeric column is rounded\<close>
  "round_holding h =
     h\<lparr>qty := round2 (qty h), buy_price := round2 (buy_price h),
       current_price := map_option round2 (current_price h),
       one_day_return_pct := map_option round2 (one_day_return_pct h),
       invested := round2 (invested h),
       current_value := map_option round2 (current_value h),
       profit_loss := map_option round2 (profit_loss h),
       return_pct := map_option round2 (return_pct h)\<rparr>"

definition compute_portfolio ::
  "(string \<Rightarrow> ticker) \<Rightarrow> (string \<Rightarrow> real option) \<Rightarrow> frame \<Rightarrow> exn + holding list" where
  "compute_portfolio yf parse df =
     try_bind (compute_unrounded yf parse df) (\<lambda>tbl. Inr (map round_holding tbl))"

subsection \<open>The summary\<close>

record summary =
  total_invested :: real
  total_current :: real
  total_pnl :: real
  total_return_pct :: "real option"
  overall_1d_change :: "pyfloat option"

definition valid_1d :: "holding list \<Rightarrow> holding list" where
  \<comment> \<open>\<^verbatim>\<open>df.dropna(subset=["1d_return_pct", "current_value"])\<close>\<close>
  "valid_1d df = filter (\<lambda>r. one_day_return_pct r \<noteq> None \<and> current_value r \<noteq> None) df"

definition print_summary :: "holding list \<Rightarrow> summary" where
  \<comment> \<open>the values \<^verbatim>\<open>print_summary\<close> computes; \<^const>\<open>overall_1d_change\<close> is the one it
      returns. The rendering of the console table is not modelled.\<close>
  "print_summary df =
     (let total_invested = sum_list (map invested df);
          total_current = nansum (map current_value df);
          total_pnl = total_current - total_invested;
          total_return_pct =
            (if total_invested \<noteq> 0 then Some (total_pnl / total_invested * 100) else None);
          valid = valid_1d df;
          overall_1d_change =
            (if valid \<noteq> [] then
               Some (np_div
                 (nansum (map (\<lambda>r. mul_opt (one_day_return_pct r) (current_value r)) valid))
                 (nansum (map current_value valid)))
             else None)
      in \<lparr>total_invested = total_invested, total_current = total_current,
          total_pnl = total_pnl, total_return_pct = total_return_pct,
          overall_1d_change = overall_1d_change\<rparr>)"

fun round_pyfloat :: "pyfloat \<Rightarrow> pyfloat" where
  "round_pyfloat (Fin x) = Fin (round2 x)"
| "round_pyfloat v = v"

definition round_summary :: "summary \<Rightarrow> summary" where
  \<comment> \<open>the summary as it is shown, every value formatted with two decimals\<close>
  "round_summary s =
     \<lparr>total_invested = round2 (total_invested s), total_current = round2 (total_current s),
      total_pnl = round2 (total_pnl s),
      total_return_pct = map_option round2 (total_return_pct s),
      overall_1d_change = map_option round_pyfloat (overall_1d_change s)\<rparr>"

subsection \<open>Sample inputs\<close>

definition quiet_bulb :: bulb where
  \<comment> \<open>a bulb that answers every call, with no call made yet\<close>
  "quiet_bulb = \<lparr>calls = [], raises = (\<lambda>c. False)\<rparr>"

definition digit_of :: "char \<Rightarrow> nat option" where
  "digit_of c = map_of (zip ''0123456789'' [0, 1, 2, 3, 4, 5, 6, 7, 8, 9]) c"

fun digits_value :: "string \<Rightarrow> nat \<Rightarrow> nat option" where
  "digits_value [] acc = Some acc"
| "digits_value (c # cs) acc =
     (case digit_of c of None \<Rightarrow> None | Some d \<Rightarrow> digits_value cs (10 * acc + d))"

definition parse_digits :: "string \<Rightarrow> real option" where
  \<comment> \<open>a sample reading of texts as numbers: the non-empty strings of decimal digits\<close>
  "parse_digits s = (if s = [] then None else map_option real (digits_value s 0))"

definition quoted :: "real \<Rightarrow> real \<Rightarrow> ticker" where
  \<comment> \<open>a ticker whose fast quote answers with a last price and a previous close\<close>
  "quoted l p =
     \<lparr>fast_info = Inr (Some l, Some p), history_2d = Inr [], info_previousClose = Inr None\<rparr>"

definition offline :: ticker where
  \<comment> \<open>a ticker whose every request raises\<close>
  "offline =
     \<lparr>fast_info = Inl SourceError, history_2d = Inl SourceError,
      info_previousClose = Inl SourceError\<rparr>"

definition sample_yf :: "string \<Rightarrow> ticker" where
  "sample_yf s =
     (if s = ''ACME.NS'' then quoted 102 100
      else if s = ''FLAT.NS'' then quoted 100 100
      else offline)"

definition holding_record :: "string \<Rightarrow> cell \<Rightarrow> cell \<Rightarrow> json_record" where
  "holding_record s q b = [(''symbol'', Text s), (''qty'', q), (''buy_price'', b)]"

definition mixed_data :: "json_record list" where
  \<comment> \<open>one holding that is quoted and one whose fetch fails\<close>
  "mixed_data =
     [holding_record ''acme'' (Num 1) (Num 50), holding_record ''gone'' (Num 2) (Num 10)]"

definition zero_qty_data :: "json_record list" where
  "zero_qty_data = [holding_record ''acme'' (Num 0) (Num 10)]"

definition small_lots_data :: "json_record list" where
  "small_lots_data =
     [holding_record ''acme'' (Num 1) (Num 10.004), holding_record ''acme'' (Num 1) (Num 10.004),
      holding_record ''acme'' (Num 1) (Num 10.004)]"

definition text_qty_data :: "json_record list" where
  "text_qty_data = [holding_record ''acme'' (Text ''abc'') (Num 10)]"

definition unrounded_table_of :: "json_record list \<Rightarrow> holding list" where
  \<comment> \<open>the table of a sample portfolio before rounding, with the sample price source\<close>
  "unrounded_table_of data =
     (case compute_unrounded sample_yf parse_digits (DataFrame data) of
        Inl e \<Rightarrow> []
      | Inr tbl \<Rightarrow> tbl)"

definition table_of :: "json_record list \<Rightarrow> holding list" where
  \<comment> \<open>the table \<^const>\<open>compute_portfolio\<close> returns for a sample portfolio\<close>
  "table_of data =
     (case compute_portfolio sample_yf parse_digits (DataFrame data) of
        Inl e \<Rightarrow> []
      | Inr tbl \<Rightarrow> tbl)"

definition row_with :: "real \<Rightarrow> real \<Rightarrow> holding" where
  \<comment> \<open>a row of one share with the current value \<^verbatim>\<open>v\<close> and the one-day return \<^verbatim>\<open>r\<close>\<close>
  "row_with v r =
     \<lparr>symbol = Text ''acme'', symbol_norm = ''ACME.NS'', qty = 1, buy_price = v,
      current_price = Some v, one_day_return_pct = Some r, invested = v,
      current_value = Some v, profit_loss = Some 0, return_pct = Some 0\<rparr>"

section \<open>Properties\<close>

subsection \<open>Strings and symbols\<close>

lemma replace_char_no_old: "old \<notin> set new \<Longrightarrow> old \<notin> set (replace_char old new s)"
  by (induction s) (auto simp: replace_char_def)

lemma replace_char_append:
  "replace_char old new (a @ b) = replace_char old new a @ replace_char old new b"
  by (simp add: replace_char_def)

lemma endswith_append: "endswith (p @ suf) suf"
  by (simp add: endswith_def)

lemma endswith_decomp: "endswith s suf \<Longrightarrow> \<exists>p. s = p @ suf"
  unfolding endswith_def by (metis append_take_drop_id)

lemma strip_decomp:
  "\<exists>a b. s = a @ strip s @ b \<and> list_all is_space a \<and> list_all is_space b"
proof -
  define t where "t = dropWhile is_space s"
  define a where "a = takeWhile is_space s"
  define b where "b = rev (takeWhile is_space (rev t))"
  have "rev (rev t) = rev (takeWhile is_space (rev t) @ dropWhile is_space (rev t))"
    by (simp only: takeWhile_dropWhile_id)
  then have "t = rev (dropWhile is_space (rev t)) @ rev (takeWhile is_space (rev t))"
    by (simp only: rev_rev_ident rev_append)
  then have t: "t = strip s @ b"
    by (simp only: strip_def b_def t_def)
  have "s = a @ t"
    by (simp add: a_def t_def)
  with t have "s = a @ strip s @ b" by simp
  moreover have "list_all is_space a"
    unfolding a_def list_all_iff by (meson set_takeWhileD)
  moreover have "list_all is_space b"
    unfolding b_def list_all_iff by (metis set_rev set_takeWhileD)
  ultimately show ?thesis by blast
qed

lemma strip_ends:
  assumes "strip s \<noteq> []"
  shows "\<not> is_space (hd (strip s)) \<and> \<not> is_space (last (strip s))"
proof -
  define t where "t = dropWhile is_space s"
  define u where "u = dropWhile is_space (rev t)"
  have su: "strip s = rev u" by (simp add: strip_def u_def t_def)
  with assms have u: "u \<noteq> []" by simp
  then have "\<not> is_space (hd u)" unfolding u_def by (rule hd_dropWhile)
  then have l: "\<not> is_space (last (strip s))" using u by (simp add: su last_rev)
  have tn: "t \<noteq> []" using u unfolding u_def by auto
  then have ht: "\<not> is_space (hd t)" unfolding t_def by (rule hd_dropWhile)
  have "\<exists>p. rev t = p @ u" unfolding u_def by (metis takeWhile_dropWhile_id)
  then obtain p where "rev t = p @ u" ..
  then have "last (rev t) = last u" using u by simp
  then have "hd t = hd (rev u)" using u tn by (simp add: last_rev hd_rev)
  with ht have "\<not> is_space (hd (strip s))" by (simp add: su)
  with l show ?thesis by simp
qed

lemma normalize_symbol_no_ampersand: "CHR ''&'' \<notin> set (normalize_symbol s)"
  by (simp add: normalize_symbol_def Let_def replace_char_no_old)

lemma normalize_symbol_suffix: "endswith (normalize_symbol s) ''.NS''"
proof (cases "endswith (upper (strip s)) ''.NS''")
  case True
  then obtain p where "upper (strip s) = p @ ''.NS''"
    using endswith_decomp by blast
  then have "normalize_symbol s = replace_char CHR ''&'' ''%26'' p @ ''.NS''"
    using True
    by (simp add: normalize_symbol_def Let_def replace_char_append) (simp add: replace_char_def)
  then show ?thesis by (simp only: endswith_append)
next
  case False
  then have "normalize_symbol s = replace_char CHR ''&'' ''%26'' (upper (strip s)) @ ''.NS''"
    by (simp add: normalize_symbol_def Let_def AUTO_APPEND_NS_def replace_char_append)
       (simp add: replace_char_def)
  then show ?thesis by (simp only: endswith_append)
qed

lemmas normalize_symbol_eval =
  normalize_symbol_def AUTO_APPEND_NS_def upper_def strip_def is_space_def upper_char_def
  endswith_def replace_char_def

text \<open>
  Claim C9. Symbol normalisation is a function of its input alone: it removes the
  whitespace around the symbol (only whitespace is removed, and what remains neither
  starts nor ends with whitespace), upper-cases the letters, appends \<^verbatim>\<open>.NS\<close> when the
  upper-cased symbol does not end with it, and then writes every ampersand as \<^verbatim>\<open>%26\<close>.
  The result always ends with \<^verbatim>\<open>.NS\<close> and holds no ampersand;
  \<^verbatim>\<open>" acme "\<close> becomes \<^verbatim>\<open>ACME.NS\<close> and \<^verbatim>\<open>M&M\<close> becomes \<^verbatim>\<open>M%26M.NS\<close>.
\<close>

theorem normalize_symbol_spec:
  "normalize_symbol s =
     concat (map (\<lambda>c. if c = CHR ''&'' then ''%26'' else [c])
       (if endswith (upper (strip s)) ''.NS'' then upper (strip s)
        else upper (strip s) @ ''.NS''))
   \<and> (\<exists>a b. s = a @ strip s @ b \<and> list_all is_space a \<and> list_all is_space b)
   \<and> (strip s = [] \<or> (\<not> is_space (hd (strip s)) \<and> \<not> is_space (last (strip s))))
   \<and> CHR ''&'' \<notin> set (normalize_symbol s)
   \<and> endswith (normalize_symbol s) ''.NS''
   \<and> normalize_symbol '' acme '' = ''ACME.NS''
   \<and> normalize_symbol ''M&M'' = ''M%26M.NS''"
proof -
  have "normalize_symbol s =
     concat (map (\<lambda>c. if c = CHR ''&'' then ''%26'' else [c])
       (if endswith (upper (strip s)) ''.NS'' then upper (strip s)
        else upper (strip s) @ ''.NS''))"
    by (simp add: normalize_symbol_def AUTO_APPEND_NS_def Let_def replace_char_def)
  moreover have "strip s = [] \<or> (\<not> is_space (hd (strip s)) \<and> \<not> is_space (last (strip s)))"
    using strip_ends by blast
  moreover have "normalize_symbol '' acme '' = ''ACME.NS''"
    by (simp add: normalize_symbol_eval)
  moreover have "normalize_symbol ''M&M'' = ''M%26M.NS''"
    by (simp add: normalize_symbol_eval)
  ultimately show ?thesis
    using strip_decomp normalize_symbol_no_ampersand normalize_symbol_suffix by blast
qed

theorem normalize_symbol_spec_witness:
  "normalize_symbol ''  m&m.ns '' = ''M%26M.NS''
   \<and> strip ''  m&m.ns '' = ''m&m.ns''
   \<and> CHR ''&'' \<notin> set (normalize_symbol ''  m&m.ns '')
   \<and> endswith (normalize_symbol ''  m&m.ns '') ''.NS''"
  using normalize_symbol_spec [of "''  m&m.ns ''"]
  by (simp add: upper_def strip_def is_space_def upper_char_def endswith_def)

subsection \<open>The bulb signal\<close>

text \<open>
  Claim C10. When the aggregate one-day change handed to \<^const>\<open>set_bulb_color\<close> is
  \<^const>\<open>None\<close>, the function returns before any device call: the bulb, with the list of
  calls it has received, is exactly as it was, whatever the device would answer, and
  nothing is printed.
\<close>

theorem set_bulb_color_None_no_call: "set_bulb_color b None = (b, [])"
  by (simp add: set_bulb_color_def)

theorem set_bulb_color_None_no_call_witness:
  "calls (fst (set_bulb_color \<lparr>calls = [turn_off], raises = (\<lambda>c. True)\<rparr> None)) = [turn_off]
   \<and> snd (set_bulb_color \<lparr>calls = [turn_off], raises = (\<lambda>c. True)\<rparr> None) = []"
  using set_bulb_color_None_no_call [of "\<lparr>calls = [turn_off], raises = (\<lambda>c. True)\<rparr>"]
  by simp

text \<open>
  Claim C2. On a bulb that answers its calls, a change above 0.3 switches the bulb on and
  sets it green (GAIN), a change below -0.3 switches it on and sets it red (LOSS), every
  change from -0.3 to 0.3 inclusive switches it on and sets it white (NEUTRAL), and an
  undefined change makes no call (UNKNOWN). These are the calls the specification's
  \<^const>\<open>classify\<close> stands for: 0.31 is GAIN, 0.3 and -0.3 are NEUTRAL, -0.31 is LOSS.
\<close>

theorem set_bulb_color_classify:
  assumes "\<And>c. \<not> raises b c"
  shows "(0.3 < x \<longrightarrow> set_bulb_color b (Some (Fin x)) =
            (b\<lparr>calls := calls b @ [turn_on, set_colour 0 255 0]\<rparr>, [''Bulb -> GREEN (Gain)'']))
       \<and> (x < - 0.3 \<longrightarrow> set_bulb_color b (Some (Fin x)) =
            (b\<lparr>calls := calls b @ [turn_on, set_colour 255 0 0]\<rparr>, [''Bulb -> RED (Loss)'']))
       \<and> (- 0.3 \<le> x \<and> x \<le> 0.3 \<longrightarrow> set_bulb_color b (Some (Fin x)) =
            (b\<lparr>calls := calls b @ [turn_on, set_white]\<rparr>, [''Bulb -> WHITE (Neutral)'']))
       \<and> set_bulb_color b None = (b, [])
       \<and> set_bulb_color b (map_option Fin v) =
            (b\<lparr>calls := calls b @ fst (indicator (classify v))\<rparr>, snd (indicator (classify v)))
       \<and> classify (Some 0.31) = GAIN \<and> classify (Some 0.3) = NEUTRAL
       \<and> classify (Some (- 0.3)) = NEUTRAL \<and> classify (Some (- 0.31)) = LOSS
       \<and> classify None = UNKNOWN"
proof -
  have "set_bulb_color b (map_option Fin v) =
          (b\<lparr>calls := calls b @ fst (indicator (classify v))\<rparr>, snd (indicator (classify v)))"
    using assms by (cases v) (simp_all add: set_bulb_color_def classify_def invoke_def Let_def)
  then show ?thesis
    using assms by (simp add: set_bulb_color_def classify_def invoke_def Let_def)
qed

theorem set_bulb_color_classify_witness:
  "set_bulb_color quiet_bulb (Some (Fin 0.31)) =
     (\<lparr>calls = [turn_on, set_colour 0 255 0], raises = (\<lambda>c. False)\<rparr>, [''Bulb -> GREEN (Gain)''])
   \<and> set_bulb_color quiet_bulb (Some (Fin 0.3)) =
     (\<lparr>calls = [turn_on, set_white], raises = (\<lambda>c. False)\<rparr>, [''Bulb -> WHITE (Neutral)''])"
proof -
  have q: "\<And>c. \<not> raises quiet_bulb c"
    by (simp add: quiet_bulb_def)
  have a: "(0.3::real) < 0.31" by simp
  have b: "- 0.3 \<le> (0.3::real) \<and> (0.3::real) \<le> 0.3" by simp
  from set_bulb_color_classify [OF q, of "0.31" None] a
  have 1: "set_bulb_color quiet_bulb (Some (Fin 0.31)) =
            (quiet_bulb\<lparr>calls := calls quiet_bulb @ [turn_on, set_colour 0 255 0]\<rparr>, [''Bulb -> GREEN (Gain)''])"
    by blast
  from set_bulb_color_classify [OF q, of "0.3" None] b
  have 2: "set_bulb_color quiet_bulb (Some (Fin 0.3)) =
            (quiet_bulb\<lparr>calls := calls quiet_bulb @ [turn_on, set_white]\<rparr>, [''Bulb -> WHITE (Neutral)''])"
    by blast
  show ?thesis
    unfolding 1 2 by (simp add: quiet_bulb_def)
qed

subsection \<open>Fetching\<close>

lemma fetch_fold:
  "fold (\<lambda>sym (prices, returns).
             (case fetch_yfinance_price yf sym of
                (price, daily_ret) \<Rightarrow> (prices(sym \<mapsto> price), returns(sym \<mapsto> daily_ret))))
          symbols (pm, rm)
   = (\<lambda>k. if k \<in> set symbols then Some (fst (fetch_yfinance_price yf k)) else pm k,
      \<lambda>k. if k \<in> set symbols then Some (snd (fetch_yfinance_price yf k)) else rm k)"
proof (induction symbols arbitrary: pm rm)
  case Nil
  then show ?case by simp
next
  case (Cons a symbols)
  obtain p r where pr: "fetch_yfinance_price yf a = (p, r)"
    by (cases "fetch_yfinance_price yf a")
  let ?step = "\<lambda>sym (prices, returns).
             (case fetch_yfinance_price yf sym of
                (price, daily_ret) \<Rightarrow> (prices(sym \<mapsto> price), returns(sym \<mapsto> daily_ret)))"
  have "fold ?step (a # symbols) (pm, rm) = fold ?step symbols (pm(a \<mapsto> p), rm(a \<mapsto> r))"
    by (simp only: fold_simps pr prod.case)
  also have "\<dots> =
     (\<lambda>k. if k \<in> set symbols then Some (fst (fetch_yfinance_price yf k)) else (pm(a \<mapsto> p)) k,
      \<lambda>k. if k \<in> set symbols then Some (snd (fetch_yfinance_price yf k)) else (rm(a \<mapsto> r)) k)"
    by (rule Cons.IH)
  also have "\<dots> =
     (\<lambda>k. if k \<in> set (a # symbols) then Some (fst (fetch_yfinance_price yf k)) else pm k,
      \<lambda>k. if k \<in> set (a # symbols) then Some (snd (fetch_yfinance_price yf k)) else rm k)"
    by (auto simp: fun_eq_iff pr)
  finally show ?case .
qed

lemma fetch_live_prices_eq:
  "fetch_live_prices yf symbols =
     (\<lambda>k. if k \<in> set symbols then Some (fst (fetch_yfinance_price yf k)) else None,
      \<lambda>k. if k \<in> set symbols then Some (snd (fetch_yfinance_price yf k)) else None)"
  unfolding fetch_live_prices_def by (rule fetch_fold)

lemma fetch_sample:
  "fetch_yfinance_price sample_yf ''ACME.NS'' = (Some 102, Some 2)"
  "fetch_yfinance_price sample_yf ''GONE.NS'' = (None, None)"
  "fetch_yfinance_price sample_yf ''FLAT.NS'' = (Some 100, None)"
  by (simp_all add: fetch_yfinance_price_def fetch_try_def sample_yf_def quoted_def offline_def try_bind_def truthy_def round2_def round_half_even_def Let_def)

subsection \<open>The table\<close>

lemma round2_vals:
  "round2 0 = 0" "round2 1 = 1" "round2 2 = 2" "round2 10 = 10" "round2 20 = 20"
  "round2 50 = 50" "round2 52 = 52" "round2 102 = 102" "round2 104 = 104"
  by (simp_all add: round2_def round_half_even_def Let_def)

lemma return_pct_row_eq:
  "return_pct_row pl invd = Inr (if invd = 0 then None else map_option (\<lambda>p. p / invd * 100) pl)"
  by (cases pl) (simp_all add: return_pct_row_def py_div_def try_bind_def)

lemma derive_row_total: "\<exists>h. derive_row parse pm rm r n = Inr h"
  by (simp add: derive_row_def Let_def return_pct_row_eq try_bind_def)

lemma derive_row_fields:
  assumes "derive_row parse pm rm r n = Inr h"
  shows "symbol h = cell_at r ''symbol''" and "symbol_norm h = n"
    and "qty h = fillna 0 (to_numeric parse (cell_at r ''qty''))"
    and "buy_price h = fillna 0 (to_numeric parse (cell_at r ''buy_price''))"
    and "current_price h = map_dict pm n"
    and "one_day_return_pct h = map_dict rm n"
    and "invested h = qty h * buy_price h"
    and "current_value h = map_option (\<lambda>p. qty h * p) (current_price h)"
    and "profit_loss h = map_option (\<lambda>v. v - invested h) (current_value h)"
    and "return_pct h =
           (if invested h = 0 then None
            else map_option (\<lambda>p. p / invested h * 100) (profit_loss h))"
  using assms
  by (auto simp: derive_row_def Let_def return_pct_row_eq try_bind_def mul_opt_def)

lemma derive_rows_Inr:
  "length rs = length ns \<Longrightarrow>
   \<exists>hs. derive_rows parse pm rm rs ns = Inr hs \<and> length hs = length rs
      \<and> (\<forall>i<length rs. derive_row parse pm rm (rs ! i) (ns ! i) = Inr (hs ! i))"
proof (induction rs arbitrary: ns)
  case Nil
  then show ?case by simp
next
  case (Cons r rs)
  then obtain n ns' where ns: "ns = n # ns'" and len: "length rs = length ns'"
    by (cases ns) auto
  obtain h where h: "derive_row parse pm rm r n = Inr h"
    using derive_row_total by blast
  obtain hs where hs: "derive_rows parse pm rm rs ns' = Inr hs" "length hs = length rs"
      "\<forall>i<length rs. derive_row parse pm rm (rs ! i) (ns' ! i) = Inr (hs ! i)"
    using Cons.IH [OF len] by blast
  have "derive_rows parse pm rm (r # rs) ns = Inr (h # hs)"
    by (simp add: ns h hs try_bind_def)
  moreover have "\<forall>i<length (r # rs). derive_row parse pm rm ((r # rs) ! i) (ns ! i) = Inr ((h # hs) ! i)"
    using h hs(3) by (auto simp: ns nth_Cons split: nat.splits)
  ultimately show ?case using hs(2) by simp
qed

lemma apply_normalize_length: "apply_normalize cs = Inr ns \<Longrightarrow> length ns = length cs"
proof (induction cs arbitrary: ns rule: apply_normalize.induct)
  case 1
  then show ?case by simp
next
  case (2 s cs)
  then show ?case by (auto simp: try_bind_def split: sum.splits)
qed simp_all

lemma apply_normalize_Inl: "apply_normalize cs = Inl e \<Longrightarrow> e = AttributeError"
  by (induction cs rule: apply_normalize.induct) (auto simp: try_bind_def split: sum.splits)

lemma apply_normalize_texts:
  "(\<forall>c\<in>set cs. \<exists>s. c = Text s) \<Longrightarrow> \<exists>ns. apply_normalize cs = Inr ns"
  by (induction cs rule: apply_normalize.induct) (auto simp: try_bind_def split: sum.splits)

lemma compute_unrounded_rows:
  assumes "compute_unrounded yf parse df = Inr tbl"
  shows "length tbl = length (rows df)"
    and "\<exists>pm rm ns. length ns = length (rows df) \<and>
           (\<forall>i<length (rows df). derive_row parse pm rm (rows df ! i) (ns ! i) = Inr (tbl ! i))"
proof -
  from assms obtain ns where req: "set required \<subseteq> set (columns df)"
    and ns: "apply_normalize (map (\<lambda>r. cell_at r ''symbol'') (rows df)) = Inr ns"
    and tbl: "derive_rows parse (fst (fetch_live_prices yf ns)) (snd (fetch_live_prices yf ns)) (rows df) ns = Inr tbl"
    by (auto simp: compute_unrounded_def try_bind_def split: if_splits sum.splits prod.splits)
  have len: "length (rows df) = length ns"
    using apply_normalize_length [OF ns] by simp
  from derive_rows_Inr [OF len, of parse "fst (fetch_live_prices yf ns)" "snd (fetch_live_prices yf ns)"] tbl
  have *: "length tbl = length (rows df) \<and>
     (\<forall>i<length (rows df). derive_row parse (fst (fetch_live_prices yf ns)) (snd (fetch_live_prices yf ns)) (rows df ! i) (ns ! i) = Inr (tbl ! i))"
    by auto
  then show "length tbl = length (rows df)" by simp
  from * len show "\<exists>pm rm ns. length ns = length (rows df) \<and>
           (\<forall>i<length (rows df). derive_row parse pm rm (rows df ! i) (ns ! i) = Inr (tbl ! i))"
    by metis
qed

lemma compute_unrounded_Inl:
  "compute_unrounded yf parse df = Inl e \<Longrightarrow> e = KeyError \<or> e = AttributeError"
proof -
  assume a: "compute_unrounded yf parse df = Inl e"
  show ?thesis
  proof (cases "set required \<subseteq> set (columns df)")
    case False
    with a show ?thesis by (simp add: compute_unrounded_def)
  next
    case True
    show ?thesis
    proof (cases "apply_normalize (map (\<lambda>r. cell_at r ''symbol'') (rows df))")
      case (Inl e')
      with a True have "e = e'" by (simp add: compute_unrounded_def try_bind_def)
      with Inl show ?thesis using apply_normalize_Inl by blast
    next
      case (Inr ns)
      have len: "length (rows df) = length ns"
        using apply_normalize_length [OF Inr] by simp
      from derive_rows_Inr [OF len, of parse "fst (fetch_live_prices yf ns)" "snd (fetch_live_prices yf ns)"]
      obtain hs where "derive_rows parse (fst (fetch_live_prices yf ns)) (snd (fetch_live_prices yf ns)) (rows df) ns = Inr hs"
        by blast
      with a True Inr show ?thesis
        by (simp add: compute_unrounded_def try_bind_def split: prod.splits)
    qed
  qed
qed

lemma compute_unrounded_succeeds:
  assumes "set required \<subseteq> set (columns df)"
    and "\<forall>r\<in>set (rows df). \<exists>s. cell_at r ''symbol'' = Text s"
  shows "\<exists>tbl. compute_unrounded yf parse df = Inr tbl"
proof -
  from assms(2) have "\<forall>c\<in>set (map (\<lambda>r. cell_at r ''symbol'') (rows df)). \<exists>s. c = Text s"
    by auto
  then obtain ns where ns: "apply_normalize (map (\<lambda>r. cell_at r ''symbol'') (rows df)) = Inr ns"
    using apply_normalize_texts by blast
  have len: "length (rows df) = length ns"
    using apply_normalize_length [OF ns] by simp
  from derive_rows_Inr [OF len, of parse "fst (fetch_live_prices yf ns)" "snd (fetch_live_prices yf ns)"]
  obtain hs where "derive_rows parse (fst (fetch_live_prices yf ns)) (snd (fetch_live_prices yf ns)) (rows df) ns = Inr hs"
    by blast
  with assms(1) ns show ?thesis
    by (simp add: compute_unrounded_def try_bind_def case_prod_unfold)
qed

lemma columns_DataFrame: "set (columns (DataFrame data)) = (\<Union>r\<in>set data. fst ` set r)"
  by (auto simp: DataFrame_def)

lemma rows_DataFrame: "rows (DataFrame data) = data"
  by (simp add: DataFrame_def)

lemma compute_portfolio_Inr:
  "compute_portfolio yf parse df = Inr tbl' \<longleftrightarrow>
     (\<exists>tbl. compute_unrounded yf parse df = Inr tbl \<and> tbl' = map round_holding tbl)"
  by (auto simp: compute_portfolio_def try_bind_def split: sum.splits)

lemma compute_portfolio_coerces:
  assumes c: "compute_portfolio yf parse df = Inr tbl" and i: "i < length (rows df)"
  shows "length tbl = length (rows df)"
    and "to_numeric parse (cell_at (rows df ! i) ''qty'') = None \<Longrightarrow> qty (tbl ! i) = 0"
    and "to_numeric parse (cell_at (rows df ! i) ''buy_price'') = None \<Longrightarrow> buy_price (tbl ! i) = 0"
proof -
  from c obtain tbl0 where u: "compute_unrounded yf parse df = Inr tbl0"
    and t: "tbl = map round_holding tbl0"
    unfolding compute_portfolio_Inr by blast
  have len: "length tbl0 = length (rows df)"
    using compute_unrounded_rows(1) [OF u] .
  then show "length tbl = length (rows df)" by (simp add: t)
  from compute_unrounded_rows(2) [OF u] i obtain pm rm ns
    where d: "derive_row parse pm rm (rows df ! i) (ns ! i) = Inr (tbl0 ! i)"
    by blast
  have r: "tbl ! i = round_holding (tbl0 ! i)"
    using i len by (simp add: t)
  show "qty (tbl ! i) = 0" if "to_numeric parse (cell_at (rows df ! i) ''qty'') = None"
    using derive_row_fields(3) [OF d] that
    by (simp add: r round_holding_def fillna_def round2_vals(1))
  show "buy_price (tbl ! i) = 0" if "to_numeric parse (cell_at (rows df ! i) ''buy_price'') = None"
    using derive_row_fields(4) [OF d] that
    by (simp add: r round_holding_def fillna_def round2_vals(1))
qed

subsection \<open>The sample tables\<close>

lemma norm_sample:
  "normalize_symbol ''acme'' = ''ACME.NS''"
  "normalize_symbol ''gone'' = ''GONE.NS''"
  by (simp_all add: normalize_symbol_eval)

lemmas table_eval = compute_unrounded_def DataFrame_def required_def holding_record_def
  try_bind_def cell_at_def norm_sample fetch_live_prices_def fetch_sample derive_row_def
  to_numeric_def fillna_def map_dict_def mul_opt_def return_pct_row_def py_div_def Let_def

lemma zero_qty_unrounded:
  "compute_unrounded sample_yf parse_digits (DataFrame zero_qty_data) =
    Inr [\<lparr>symbol = Text ''acme'', symbol_norm = ''ACME.NS'', qty = 0,
         buy_price = 10, current_price = Some 102,
         one_day_return_pct = Some 2, invested = 0, current_value = Some 0,
         profit_loss = Some 0, return_pct = None\<rparr>]"
  by (simp add: zero_qty_data_def table_eval)

lemma mixed_unrounded:
  "compute_unrounded sample_yf parse_digits (DataFrame mixed_data) =
    Inr [\<lparr>symbol = Text ''acme'', symbol_norm = ''ACME.NS'', qty = 1,
         buy_price = 50, current_price = Some 102,
         one_day_return_pct = Some 2, invested = 50,
         current_value = Some 102, profit_loss = Some 52,
         return_pct = Some 104\<rparr>,
      \<lparr>symbol = Text ''gone'', symbol_norm = ''GONE.NS'', qty = 2,
         buy_price = 10, current_price = None, one_day_return_pct = None,
         invested = 20, current_value = None, profit_loss = None,
         return_pct = None\<rparr>]"
  by (simp add: mixed_data_def table_eval)

lemma small_unrounded:
  "compute_unrounded sample_yf parse_digits (DataFrame small_lots_data) =
    Inr (replicate 3 \<lparr>symbol = Text ''acme'', symbol_norm = ''ACME.NS'', qty = 1,
         buy_price = 10.004, current_price = Some 102,
         one_day_return_pct = Some 2, invested = 10.004,
         current_value = Some 102, profit_loss = Some 91.996,
         return_pct = Some (91.996 / 10.004 * 100)\<rparr>)"
  by (simp add: small_lots_data_def table_eval numeral_3_eq_3)

lemma text_unrounded:
  "compute_unrounded sample_yf parse_digits (DataFrame text_qty_data) =
    Inr [\<lparr>symbol = Text ''acme'', symbol_norm = ''ACME.NS'', qty = 0,
         buy_price = 10, current_price = Some 102,
         one_day_return_pct = Some 2, invested = 0, current_value = Some 0,
         profit_loss = Some 0, return_pct = None\<rparr>]"
  by (simp add: text_qty_data_def table_eval parse_digits_def digit_of_def)

lemmas round_eval = round_holding_def round2_vals

lemma zero_qty_table:
  "compute_portfolio sample_yf parse_digits (DataFrame zero_qty_data) =
    Inr [\<lparr>symbol = Text ''acme'', symbol_norm = ''ACME.NS'', qty = 0,
         buy_price = 10, current_price = Some 102,
         one_day_return_pct = Some 2, invested = 0, current_value = Some 0,
         profit_loss = Some 0, return_pct = None\<rparr>]"
  by (simp add: compute_portfolio_def zero_qty_unrounded try_bind_def round_eval)

lemma text_qty_table:
  "compute_portfolio sample_yf parse_digits (DataFrame text_qty_data) =
    Inr [\<lparr>symbol = Text ''acme'', symbol_norm = ''ACME.NS'', qty = 0,
         buy_price = 10, current_price = Some 102,
         one_day_return_pct = Some 2, invested = 0, current_value = Some 0,
         profit_loss = Some 0, return_pct = None\<rparr>]"
  by (simp add: compute_portfolio_def text_unrounded try_bind_def round_eval)

lemma mixed_table:
  "compute_portfolio sample_yf parse_digits (DataFrame mixed_data) =
    Inr [\<lparr>symbol = Text ''acme'', symbol_norm = ''ACME.NS'', qty = 1,
         buy_price = 50, current_price = Some 102,
         one_day_return_pct = Some 2, invested = 50,
         current_value = Some 102, profit_loss = Some 52,
         return_pct = Some 104\<rparr>,
      \<lparr>symbol = Text ''gone'', symbol_norm = ''GONE.NS'', qty = 2,
         buy_price = 10, current_price = None, one_day_return_pct = None,
         invested = 20, current_value = None, profit_loss = None,
         return_pct = None\<rparr>]"
  by (simp add: compute_portfolio_def mixed_unrounded try_bind_def round_eval)

lemma fetch_quoted:
  "l \<noteq> 0 \<Longrightarrow> p \<noteq> 0 \<Longrightarrow>
   fetch_try (quoted l p) =
     Inr (Some l, if l = p then None else Some (round2 ((l - p) / p * 100)))"
  by (simp add: fetch_try_def quoted_def try_bind_def truthy_def Let_def)

subsection \<open>The fetch loop\<close>

text \<open>
  Claim C8. A fetch that fails for one symbol raises nothing to the caller and does not
  stop the loop: after \<^const>\<open>fetch_live_prices\<close> both dictionaries have an entry for
  every symbol of the list and for no other key, the entry of a symbol is what
  \<^const>\<open>fetch_yfinance_price\<close> answers for that symbol alone, a symbol whose fetch raised
  has the entry \<^verbatim>\<open>None\<close> in both, and the entry of a symbol is the same under any
  price source that answers alike for that symbol, whatever happens for the others.
\<close>

theorem fetch_live_prices_isolated:
  "(\<forall>s \<in> set symbols.
      fst (fetch_live_prices yf symbols) s = Some (fst (fetch_yfinance_price yf s))
    \<and> snd (fetch_live_prices yf symbols) s = Some (snd (fetch_yfinance_price yf s))
    \<and> ((\<exists>e. fetch_try (yf s) = Inl e) \<longrightarrow>
          fst (fetch_live_prices yf symbols) s = Some None
        \<and> snd (fetch_live_prices yf symbols) s = Some None)
    \<and> (\<forall>yf'. yf' s = yf s \<longrightarrow>
          fst (fetch_live_prices yf' symbols) s = fst (fetch_live_prices yf symbols) s
        \<and> snd (fetch_live_prices yf' symbols) s = snd (fetch_live_prices yf symbols) s))
   \<and> dom (fst (fetch_live_prices yf symbols)) = set symbols
   \<and> dom (snd (fetch_live_prices yf symbols)) = set symbols"
  by (auto simp: fetch_live_prices_eq fetch_yfinance_price_def split: if_splits)

theorem fetch_live_prices_isolated_witness:
  "fst (fetch_live_prices sample_yf [''GONE.NS'', ''ACME.NS'']) ''GONE.NS'' = Some None
   \<and> snd (fetch_live_prices sample_yf [''GONE.NS'', ''ACME.NS'']) ''GONE.NS'' = Some None
   \<and> fst (fetch_live_prices sample_yf [''GONE.NS'', ''ACME.NS'']) ''ACME.NS'' = Some (Some 102)
   \<and> snd (fetch_live_prices sample_yf [''GONE.NS'', ''ACME.NS'']) ''ACME.NS'' = Some (Some 2)
   \<and> fetch_try (sample_yf ''GONE.NS'') = Inl SourceError"
proof -
  have g: "''GONE.NS'' \<in> set [''GONE.NS'', ''ACME.NS'']"
    and a: "''ACME.NS'' \<in> set [''GONE.NS'', ''ACME.NS'']"
    by simp_all
  have f: "fetch_try (sample_yf ''GONE.NS'') = Inl SourceError"
    by (simp add: fetch_try_def sample_yf_def offline_def try_bind_def)
  note t = fetch_live_prices_isolated [of "[''GONE.NS'', ''ACME.NS'']" sample_yf]
  from t g f have "fst (fetch_live_prices sample_yf [''GONE.NS'', ''ACME.NS'']) ''GONE.NS'' = Some None
     \<and> snd (fetch_live_prices sample_yf [''GONE.NS'', ''ACME.NS'']) ''GONE.NS'' = Some None"
    by blast
  moreover from t a have "fst (fetch_live_prices sample_yf [''GONE.NS'', ''ACME.NS'']) ''ACME.NS''
       = Some (fst (fetch_yfinance_price sample_yf ''ACME.NS''))
     \<and> snd (fetch_live_prices sample_yf [''GONE.NS'', ''ACME.NS'']) ''ACME.NS''
       = Some (snd (fetch_yfinance_price sample_yf ''ACME.NS''))"
    by blast
  ultimately show ?thesis
    using f by (simp add: fetch_sample)
qed

text \<open>
  Claim C3. The claim says that the one-day return of a quote is defined whenever both
  prices are present and the previous close is not zero, a return of 0 percent included.
  The code tests the truth value of the computed return before rounding it, so a quote
  whose last price equals its previous close has no return: the flat quote 100, 100
  gives the price 100 and the return \<^verbatim>\<open>None\<close>. For every other quote with both prices
  non-zero the return is the rounded percentage (\<open>fetch_quoted\<close>).
\<close>

theorem fetch_flat_quote_return_undefined:
  "fetch_try (quoted 100 100) = Inr (Some 100, None)
   \<and> fetch_yfinance_price sample_yf ''FLAT.NS'' = (Some 100, None)"
  by (simp add: fetch_quoted fetch_sample)

theorem fetch_flat_quote_return_undefined_witness:
  "snd (fetch_yfinance_price sample_yf ''FLAT.NS'') = None
   \<and> fst (fetch_yfinance_price sample_yf ''FLAT.NS'') = Some 100"
  using fetch_flat_quote_return_undefined by simp

subsection \<open>The return of a row\<close>

text \<open>
  Claim C6. The return of a row is computed behind a guard on its invested amount: it is
  undefined when the invested amount is zero, it is the profit or loss divided by the
  invested amount, times 100, otherwise (undefined when the profit or loss is), and the
  division never raises \<^verbatim>\<open>ZeroDivisionError\<close>, for the row and for the whole table. The
  table that \<^const>\<open>compute_portfolio\<close> returns holds these values rounded to two
  decimals.
\<close>

theorem return_pct_guarded:
  "return_pct_row pl invd =
     Inr (if invd = 0 then None else map_option (\<lambda>p. p / invd * 100) pl)
   \<and> compute_unrounded yf parse df \<noteq> Inl ZeroDivisionError
   \<and> compute_portfolio yf parse df \<noteq> Inl ZeroDivisionError
   \<and> (\<forall>tbl. compute_unrounded yf parse df = Inr tbl \<longrightarrow>
        (\<forall>h\<in>set tbl. return_pct h =
           (if invested h = 0 then None
            else map_option (\<lambda>p. p / invested h * 100) (profit_loss h))))
   \<and> (\<forall>tbl'. compute_portfolio yf parse df = Inr tbl' \<longrightarrow>
        (\<exists>tbl. compute_unrounded yf parse df = Inr tbl \<and> tbl' = map round_holding tbl))"
proof -
  have 1: "compute_unrounded yf parse df \<noteq> Inl ZeroDivisionError"
    using compute_unrounded_Inl by blast
  then have 2: "compute_portfolio yf parse df \<noteq> Inl ZeroDivisionError"
    by (auto simp: compute_portfolio_def try_bind_def split: sum.splits)
  have 3: "return_pct h =
           (if invested h = 0 then None
            else map_option (\<lambda>p. p / invested h * 100) (profit_loss h))"
    if t: "compute_unrounded yf parse df = Inr tbl" and h: "h \<in> set tbl" for tbl h
  proof -
    from h obtain i where i: "i < length tbl" "tbl ! i = h"
      by (auto simp: in_set_conv_nth)
    from compute_unrounded_rows [OF t] i obtain pm rm ns
      where "derive_row parse pm rm (rows df ! i) (ns ! i) = Inr h"
      by auto
    then show ?thesis by (rule derive_row_fields(10))
  qed
  have 4: "\<exists>tbl. compute_unrounded yf parse df = Inr tbl \<and> tbl' = map round_holding tbl"
    if "compute_portfolio yf parse df = Inr tbl'" for tbl'
    using that by (auto simp: compute_portfolio_def try_bind_def split: sum.splits)
  show ?thesis
    using 1 2 3 4 by (simp add: return_pct_row_eq)
qed

theorem return_pct_guarded_witness:
  "return_pct_row (Some 52) 50 = Inr (Some 104)
   \<and> return_pct_row (Some 0) 0 = Inr None
   \<and> map return_pct (unrounded_table_of mixed_data) = [Some 104, None]
   \<and> map invested (unrounded_table_of mixed_data) = [50, 20]
   \<and> map return_pct (unrounded_table_of zero_qty_data) = [None]
   \<and> map invested (unrounded_table_of zero_qty_data) = [0]"
proof -
  have "return_pct_row (Some 52) 50 = Inr (Some 104)"
    using return_pct_guarded [of "Some 52" 50] by simp
  moreover have "return_pct_row (Some 0) 0 = Inr None"
    using return_pct_guarded [of "Some 0" 0] by simp
  moreover have "\<forall>h\<in>set (unrounded_table_of mixed_data). return_pct h =
           (if invested h = 0 then None
            else map_option (\<lambda>p. p / invested h * 100) (profit_loss h))"
    using return_pct_guarded [of None 0 sample_yf parse_digits "DataFrame mixed_data"]
    by (simp add: unrounded_table_of_def mixed_unrounded)
  moreover have "\<forall>h\<in>set (unrounded_table_of zero_qty_data). return_pct h =
           (if invested h = 0 then None
            else map_option (\<lambda>p. p / invested h * 100) (profit_loss h))"
    using return_pct_guarded [of None 0 sample_yf parse_digits "DataFrame zero_qty_data"]
    by (simp add: unrounded_table_of_def zero_qty_unrounded)
  ultimately show ?thesis
    by (simp add: unrounded_table_of_def mixed_unrounded zero_qty_unrounded)
qed

subsection \<open>Loading\<close>

text \<open>
  Claim C7. For a path with the suffix \<^verbatim>\<open>.json\<close>, loading fails with the missing-keys
  error exactly when the source was parsed and one of \<^verbatim>\<open>symbol\<close>, \<^verbatim>\<open>qty\<close>,
  \<^verbatim>\<open>buy_price\<close> occurs in no record (so when every record lacks \<^verbatim>\<open>buy_price\<close>), and
  with the read error exactly when the source could not be parsed. When every required
  key occurs in some record the file loads whatever the values are; the table is then
  computed when every symbol is a text, with one row for each record, and a
  \<^verbatim>\<open>qty\<close> or \<^verbatim>\<open>buy_price\<close> that is not numeric (a text the library does not read as a
  number, or a missing cell) is 0 in its row.
\<close>

theorem load_portfolio_errors:
  assumes "lower suffix = ''.json''"
  shows "(load_portfolio suffix parsed = Inl MissingKeys \<longleftrightarrow>
            (\<exists>data. parsed = Some data \<and> (\<exists>k\<in>set required. \<forall>r\<in>set data. k \<notin> fst ` set r)))
       \<and> (load_portfolio suffix parsed = Inl FailedToRead \<longleftrightarrow> parsed = None)
       \<and> ((\<forall>r\<in>set data. ''buy_price'' \<notin> fst ` set r) \<longrightarrow>
            load_portfolio suffix (Some data) = Inl MissingKeys)
       \<and> ((\<forall>k\<in>set required. \<exists>r\<in>set data. k \<in> fst ` set r) \<longrightarrow>
            load_portfolio suffix (Some data) = Inr (DataFrame data))
       \<and> ((\<forall>k\<in>set required. \<exists>r\<in>set data. k \<in> fst ` set r)
            \<and> (\<forall>r\<in>set data. \<exists>s. cell_at r ''symbol'' = Text s) \<longrightarrow>
            (\<exists>tbl. compute_portfolio yf parse (DataFrame data) = Inr tbl))
       \<and> (\<forall>tbl i. compute_portfolio yf parse df = Inr tbl \<and> i < length (rows df) \<longrightarrow>
            length tbl = length (rows df)
            \<and> (to_numeric parse (cell_at (rows df ! i) ''qty'') = None \<longrightarrow> qty (tbl ! i) = 0)
            \<and> (to_numeric parse (cell_at (rows df ! i) ''buy_price'') = None \<longrightarrow>
                 buy_price (tbl ! i) = 0))
       \<and> (parse s = None \<longrightarrow> to_numeric parse (Text s) = None)"
proof -
  have sub: "set required \<subseteq> set (columns (DataFrame d)) \<longleftrightarrow>
               (\<forall>k\<in>set required. \<exists>r\<in>set d. k \<in> fst ` set r)" for d
    unfolding columns_DataFrame by blast
  have 1: "load_portfolio suffix parsed = Inl MissingKeys \<longleftrightarrow>
            (\<exists>data. parsed = Some data \<and> (\<exists>k\<in>set required. \<forall>r\<in>set data. k \<notin> fst ` set r))"
    using assms by (cases parsed) (auto simp: load_portfolio_def Let_def sub)
  have 2: "load_portfolio suffix parsed = Inl FailedToRead \<longleftrightarrow> parsed = None"
    using assms by (cases parsed) (simp_all add: load_portfolio_def Let_def)
  have 3: "load_portfolio suffix (Some data) = Inl MissingKeys"
    if "\<forall>r\<in>set data. ''buy_price'' \<notin> fst ` set r"
  proof -
    have "''buy_price'' \<in> set required" by (simp add: required_def)
    with that have "\<not> (\<forall>k\<in>set required. \<exists>r\<in>set data. k \<in> fst ` set r)" by blast
    then show ?thesis using assms by (simp add: load_portfolio_def Let_def sub)
  qed
  have 4: "load_portfolio suffix (Some data) = Inr (DataFrame data)"
    if "\<forall>k\<in>set required. \<exists>r\<in>set data. k \<in> fst ` set r"
    using that assms by (simp add: load_portfolio_def Let_def sub)
  have 5: "\<exists>tbl. compute_portfolio yf parse (DataFrame data) = Inr tbl"
    if "\<forall>k\<in>set required. \<exists>r\<in>set data. k \<in> fst ` set r"
      and "\<forall>r\<in>set data. \<exists>s. cell_at r ''symbol'' = Text s"
  proof -
    from that(1) have "set required \<subseteq> set (columns (DataFrame data))"
      by (simp only: sub)
    moreover from that(2) have "\<forall>r\<in>set (rows (DataFrame data)). \<exists>s. cell_at r ''symbol'' = Text s"
      by (simp only: rows_DataFrame)
    ultimately obtain tbl0 where "compute_unrounded yf parse (DataFrame data) = Inr tbl0"
      using compute_unrounded_succeeds by blast
    then show ?thesis unfolding compute_portfolio_Inr by blast
  qed
  have 6: "to_numeric parse (Text s) = None" if "parse s = None"
    using that by (simp add: to_numeric_def)
  show ?thesis
    using 1 2 3 4 5 6 compute_portfolio_coerces [of yf parse df] by blast
qed

theorem load_portfolio_errors_witness:
  "load_portfolio ''.JSON'' (Some text_qty_data) = Inr (DataFrame text_qty_data)
   \<and> map qty (table_of text_qty_data) = [0]
   \<and> to_numeric parse_digits (cell_at (hd text_qty_data) ''qty'') = None
   \<and> load_portfolio ''.JSON'' None = Inl FailedToRead
   \<and> load_portfolio ''.JSON'' (Some [[(''symbol'', Text ''acme''), (''qty'', Num 1)]])
       = Inl MissingKeys"
proof -
  have s: "lower ''.JSON'' = ''.json''"
    by (simp add: lower_def lower_char_def)
  have k: "\<forall>k\<in>set required. \<exists>r\<in>set text_qty_data. k \<in> fst ` set r"
    by (simp add: required_def text_qty_data_def holding_record_def)
  have b: "\<forall>r\<in>set [[(''symbol'', Text ''acme''), (''qty'', Num 1)]]. ''buy_price'' \<notin> fst ` set r"
    by simp
  have p: "parse_digits ''abc'' = None"
    by (simp add: parse_digits_def digit_of_def)
  have c: "cell_at (rows (DataFrame text_qty_data) ! 0) ''qty'' = Text ''abc''"
    by (simp add: rows_DataFrame text_qty_data_def holding_record_def cell_at_def)
  have n: "to_numeric parse_digits (Text ''abc'') = None"
    using load_portfolio_errors [OF s, of None "[]" sample_yf parse_digits "DataFrame []" "''abc''"] p
    by blast
  have t: "compute_portfolio sample_yf parse_digits (DataFrame text_qty_data)
             = Inr (table_of text_qty_data) \<and> 0 < length (rows (DataFrame text_qty_data))"
    by (simp add: table_of_def text_qty_table rows_DataFrame) (simp add: text_qty_data_def)
  have 1: "load_portfolio ''.JSON'' (Some text_qty_data) = Inr (DataFrame text_qty_data)"
    using load_portfolio_errors [OF s, of None text_qty_data] k by blast
  have 2: "load_portfolio ''.JSON'' None = Inl FailedToRead"
    using load_portfolio_errors [OF s, of None "[]"] by blast
  have 3: "load_portfolio ''.JSON'' (Some [[(''symbol'', Text ''acme''), (''qty'', Num 1)]])
       = Inl MissingKeys"
    using load_portfolio_errors [OF s, of None "[[(''symbol'', Text ''acme''), (''qty'', Num 1)]]"] b
    by blast
  have 4: "qty (table_of text_qty_data ! 0) = 0"
    using load_portfolio_errors [OF s, of None "[]" sample_yf parse_digits "DataFrame text_qty_data" "''abc''"]
      t n c by metis
  have 5: "length (table_of text_qty_data) = 1"
    by (simp add: table_of_def text_qty_table)
  from 4 5 have "map qty (table_of text_qty_data) = [0]"
    by (cases "table_of text_qty_data") simp_all
  with 1 2 3 n c show ?thesis
    by (simp add: rows_DataFrame text_qty_data_def)
qed

subsection \<open>The summary\<close>

lemma nansum_map_filter: "nansum (map f xs) = sum_list (List.map_filter f xs)"
  by (induction xs) (simp_all add: nansum_def map_filter_simps fillna_def split: option.splits)

lemma map_filter_filter:
  "(\<And>x. \<not> P x \<Longrightarrow> f x = None) \<Longrightarrow> List.map_filter f (filter P xs) = List.map_filter f xs"
  by (induction xs) (auto simp: map_filter_simps split: option.splits)

lemma print_summary_fields:
  "total_invested (print_summary df) = sum_list (map invested df)"
  "total_current (print_summary df) = nansum (map current_value df)"
  "total_pnl (print_summary df) = nansum (map current_value df) - sum_list (map invested df)"
  "total_return_pct (print_summary df) =
     (if sum_list (map invested df) = 0 then None
      else Some ((nansum (map current_value df) - sum_list (map invested df))
                   / sum_list (map invested df) * 100))"
  "overall_1d_change (print_summary df) =
     (if valid_1d df = [] then None
      else Some (np_div
             (nansum (map (\<lambda>r. mul_opt (one_day_return_pct r) (current_value r)) (valid_1d df)))
             (nansum (map current_value (valid_1d df)))))"
  by (simp_all add: print_summary_def Let_def)

lemma weighted_sum_valid:
  "nansum (map (\<lambda>r. mul_opt (one_day_return_pct r) (current_value r)) (valid_1d df)) =
     sum_list (List.map_filter (\<lambda>r. mul_opt (one_day_return_pct r) (current_value r)) df)"
  unfolding nansum_map_filter valid_1d_def
  by (rule arg_cong [where f = sum_list], rule map_filter_filter)
     (auto simp: mul_opt_def split: option.splits)

lemma overall_1d_change_cases:
  "(valid_1d df = [] \<longleftrightarrow> overall_1d_change (print_summary df) = None)"
  "valid_1d df \<noteq> [] \<Longrightarrow> sum_list (List.map_filter current_value (valid_1d df)) \<noteq> 0 \<Longrightarrow>
     overall_1d_change (print_summary df) =
       Some (Fin (sum_list (List.map_filter (\<lambda>r. mul_opt (one_day_return_pct r) (current_value r)) df)
                   / sum_list (List.map_filter current_value (valid_1d df))))"
  "valid_1d df \<noteq> [] \<Longrightarrow> sum_list (List.map_filter current_value (valid_1d df)) = 0 \<Longrightarrow>
     overall_1d_change (print_summary df) \<in> {Some NaN, Some PInf, Some NInf}"
  by (simp_all add: print_summary_fields(5) weighted_sum_valid np_div_def)
     (simp_all add: nansum_map_filter)

lemma spec_example_rows:
  "overall_1d_change (print_summary [row_with 100 2.0, row_with 300 (- 1.0)]) = Some (Fin (- 0.25))"
  by (simp add: print_summary_fields(5) valid_1d_def row_with_def nansum_def fillna_def mul_opt_def np_div_def)

lemma valid_1d_round: "valid_1d (map round_holding tbl) = map round_holding (valid_1d tbl)"
  by (induction tbl) (simp_all add: valid_1d_def round_holding_def)

lemma summary_rounded_fields:
  "total_invested (print_summary (map round_holding tbl)) = sum_list (map (\<lambda>h. round2 (invested h)) tbl)"
  "total_current (print_summary (map round_holding tbl)) =
     nansum (map (\<lambda>h. map_option round2 (current_value h)) tbl)"
  "overall_1d_change (print_summary (map round_holding tbl)) =
     (if valid_1d tbl = [] then None
      else Some (np_div
             (nansum (map (\<lambda>h. mul_opt (map_option round2 (one_day_return_pct h))
                                         (map_option round2 (current_value h))) (valid_1d tbl)))
             (nansum (map (\<lambda>h. map_option round2 (current_value h)) (valid_1d tbl)))))"
  by (simp_all add: print_summary_fields valid_1d_round comp_def round_holding_def)

lemma small_lots_table:
  "table_of small_lots_data = map round_holding (unrounded_table_of small_lots_data)"
  by (simp add: table_of_def unrounded_table_of_def compute_portfolio_def small_unrounded try_bind_def)

lemma small_lots_invested:
  "total_invested (print_summary (table_of small_lots_data)) = 30"
  "total_invested (print_summary (unrounded_table_of small_lots_data)) = 30.012"
  by (simp_all add: small_lots_table summary_rounded_fields(1) print_summary_fields(1))
     (simp_all add: unrounded_table_of_def small_unrounded numeral_3_eq_3 round_holding_def
        round2_def round_half_even_def Let_def)

text \<open>
  Claim C5, as the code has it. The total invested is the sum of the invested amounts of
  all rows, a row whose fetch failed included; the total current value is the sum of
  the current values of the rows where it is defined; the total profit or loss is their
  difference; the total return is undefined when the total invested is zero and is the
  profit or loss over the total invested, times 100, otherwise.
\<close>

theorem print_summary_totals:
  "total_invested (print_summary df) = sum_list (map invested df)
   \<and> total_current (print_summary df) = sum_list (List.map_filter current_value df)
   \<and> total_pnl (print_summary df) =
        total_current (print_summary df) - total_invested (print_summary df)
   \<and> total_return_pct (print_summary df) =
        (if total_invested (print_summary df) = 0 then None
         else Some (total_pnl (print_summary df) / total_invested (print_summary df) * 100))"
  by (simp add: print_summary_fields nansum_map_filter)

theorem print_summary_totals_witness:
  "total_invested (print_summary (table_of mixed_data)) = 70
   \<and> total_current (print_summary (table_of mixed_data)) = 102
   \<and> total_pnl (print_summary (table_of mixed_data)) = 32
   \<and> total_return_pct (print_summary (table_of zero_qty_data)) = None"
  using print_summary_totals [of "table_of mixed_data"]
    print_summary_totals [of "table_of zero_qty_data"]
  by (simp add: table_of_def mixed_table zero_qty_table map_filter_simps)

text \<open>
  Claim C5 as stated fails: in the sample table the fetch of the second holding fails,
  its current value is undefined, and its invested amount of 20 is still part of the
  total invested, 70, and is subtracted in the total profit or loss.
\<close>

theorem totals_count_failed_rows:
  "total_invested (print_summary (table_of mixed_data))
     \<noteq> sum_list (map invested (filter (\<lambda>r. current_value r \<noteq> None) (table_of mixed_data)))
   \<and> total_pnl (print_summary (table_of mixed_data))
     \<noteq> sum_list (List.map_filter profit_loss (table_of mixed_data))
   \<and> map current_value (table_of mixed_data) = [Some 102, None]
   \<and> map invested (table_of mixed_data) = [50, 20]
   \<and> total_invested (print_summary (table_of mixed_data)) = 70"
  by (simp add: print_summary_fields table_of_def mixed_table map_filter_simps nansum_def fillna_def)

text \<open>
  Claim C4, as the code has it. \<^const>\<open>compute_portfolio\<close> returns the table rounded to two
  decimals, and the summary is computed from that table: the total invested is the sum
  of the rounded invested amounts, the total current value the sum of the rounded
  current values, and the overall one-day change weighs the rounded returns by the
  rounded current values over the rows where both are defined. The aggregates are not
  rounded again.
\<close>

theorem summary_of_rounded_rows:
  "total_invested (print_summary (map round_holding tbl)) =
     sum_list (map (\<lambda>h. round2 (invested h)) tbl)
   \<and> total_current (print_summary (map round_holding tbl)) =
     nansum (map (\<lambda>h. map_option round2 (current_value h)) tbl)
   \<and> overall_1d_change (print_summary (map round_holding tbl)) =
     (if valid_1d tbl = [] then None
      else Some (np_div
             (nansum (map (\<lambda>h. mul_opt (map_option round2 (one_day_return_pct h))
                                         (map_option round2 (current_value h))) (valid_1d tbl)))
             (nansum (map (\<lambda>h. map_option round2 (current_value h)) (valid_1d tbl)))))
   \<and> (\<forall>tbl'. compute_portfolio yf parse df = Inr tbl' \<longrightarrow>
        (\<exists>t. compute_unrounded yf parse df = Inr t \<and> tbl' = map round_holding t))"
  using summary_rounded_fields [of tbl] compute_portfolio_Inr [of yf parse df] by blast

theorem summary_of_rounded_rows_witness:
  "total_invested (print_summary (table_of small_lots_data)) = 30
   \<and> sum_list (map invested (unrounded_table_of small_lots_data)) = 30.012
   \<and> table_of small_lots_data = map round_holding (unrounded_table_of small_lots_data)"
proof -
  have "total_invested (print_summary (map round_holding (unrounded_table_of small_lots_data)))
          = sum_list (map (\<lambda>h. round2 (invested h)) (unrounded_table_of small_lots_data))"
    using summary_of_rounded_rows [of "unrounded_table_of small_lots_data"] by blast
  then show ?thesis
    by (simp add: small_lots_table)
       (simp add: unrounded_table_of_def small_unrounded numeral_3_eq_3 round2_def
          round_half_even_def Let_def)
qed

text \<open>
  Claim C4 as stated fails: for three holdings of one share bought at 10.004 the summary
  of the returned table has a total invested of 30, where the unrounded rows sum to
  30.012, shown as 30.01; the summary shown differs from the one aggregated before
  rounding.
\<close>

theorem summary_differs_from_unrounded_aggregate:
  "round_summary (print_summary (table_of small_lots_data))
     \<noteq> round_summary (print_summary (unrounded_table_of small_lots_data))
   \<and> total_invested (print_summary (table_of small_lots_data)) = 30
   \<and> total_invested (print_summary (unrounded_table_of small_lots_data)) = 30.012
   \<and> round2 30.012 = 30.01"
proof -
  have "total_invested (round_summary (print_summary (table_of small_lots_data))) = 30"
    by (simp add: round_summary_def small_lots_invested round2_def round_half_even_def)
  moreover have "total_invested (round_summary (print_summary (unrounded_table_of small_lots_data))) = 30.01"
    by (simp add: round_summary_def small_lots_invested round2_def round_half_even_def Let_def)
  ultimately have "round_summary (print_summary (table_of small_lots_data))
     \<noteq> round_summary (print_summary (unrounded_table_of small_lots_data))"
    by auto
  then show ?thesis
    by (simp add: small_lots_invested) (simp add: round2_def round_half_even_def Let_def)
qed

text \<open>
  Claim C1. The claim says that the overall one-day change is undefined whenever the
  weights of the qualifying rows sum to zero. The code guards only the empty case: for a
  single holding of quantity 0 with a quote, the row qualifies, its weight is 0, and
  the division gives \<^verbatim>\<open>nan\<close>, not \<^verbatim>\<open>None\<close>; the bulb is then switched on and set white.
  Where the weights do not sum to zero the result is the weighted mean, and it is
  \<^verbatim>\<open>None\<close> exactly when no row qualifies (\<open>overall_1d_change_cases\<close>); the rows of the
  specification's example give -0.25 (\<open>spec_example_rows\<close>).
\<close>

theorem overall_1d_change_zero_weight:
  "compute_portfolio sample_yf parse_digits (DataFrame zero_qty_data) = Inr (table_of zero_qty_data)
   \<and> map one_day_return_pct (table_of zero_qty_data) = [Some 2]
   \<and> map current_value (table_of zero_qty_data) = [Some 0]
   \<and> overall_1d_change (print_summary (table_of zero_qty_data)) = Some NaN
   \<and> set_bulb_color quiet_bulb (Some NaN) =
       (quiet_bulb\<lparr>calls := [turn_on, set_white]\<rparr>, [''Bulb -> WHITE (Neutral)''])"
  by (simp add: table_of_def zero_qty_table print_summary_fields(5) valid_1d_def nansum_def
      fillna_def mul_opt_def np_div_def set_bulb_color_def invoke_def quiet_bulb_def)

theorem overall_1d_change_zero_weight_witness:
  "overall_1d_change (print_summary (table_of zero_qty_data)) \<noteq> None
   \<and> valid_1d (table_of zero_qty_data) = table_of zero_qty_data"
  using overall_1d_change_zero_weight
  by (simp add: valid_1d_def table_of_def zero_qty_table)

end
